theory Spec2Isabelle
  imports Main "HOL-Library.Char_ord" "HOL-Library.List_Lexorder"
begin

section \<open>Python values used by the adapter\<close>

text \<open>
  Python strings are modelled as \<^typ>\<open>string\<close>, one \<^typ>\<open>char\<close> per code point.
  An exception is a value: its class and the text that \<^verbatim>\<open>str(e)\<close> yields.
  Every function of the source that can raise returns \<^typ>\<open>'e + 'a\<close> with the
  exception on the left.
\<close>

datatype exc_class =
  Exception | AttributeError | ValueError | OverflowError | OSError | ClientError |
  JSONDecodeError

datatype pyexc = PyExc (exc_class: exc_class) (exc_str: string)

subsection \<open>\<^verbatim>\<open>str(n)\<close> for integers\<close>

definition digit_char :: "nat \<Rightarrow> char" where
  "digit_char d = char_of (48 + d)"

fun str_nat :: "nat \<Rightarrow> string" where
  "str_nat n = (if n < 10 then [digit_char n] else str_nat (n div 10) @ [digit_char (n mod 10)])"

declare str_nat.simps [simp del]

definition str_int :: "int \<Rightarrow> string" where
  "str_int i = (if i < 0 then CHR ''-'' # str_nat (nat (- i)) else str_nat (nat i))"

subsection \<open>String operations\<close>

text \<open>\<^verbatim>\<open>s.startswith(p)\<close>.\<close>

definition startswith :: "string \<Rightarrow> string \<Rightarrow> bool" where
  "startswith s p = (take (length p) s = p)"

text \<open>\<^verbatim>\<open>needle in hay\<close> for two strings: a left-to-right search for an occurrence.\<close>

fun str_in :: "string \<Rightarrow> string \<Rightarrow> bool" where
  "str_in needle [] = (needle = [])"
| "str_in needle (c # cs) = (if startswith (c # cs) needle then True else str_in needle cs)"

text \<open>\<^verbatim>\<open>any(...)\<close> over the values a generator yields, stopping at the first true one.\<close>

fun py_any :: "bool list \<Rightarrow> bool" where
  "py_any [] = False"
| "py_any (b # bs) = (if b then True else py_any bs)"

subsection \<open>\<^verbatim>\<open>re.sub("<[^<]+?>", "", s)\<close>\<close>

text \<open>
  The pattern is an opening bracket, one or more characters other than an opening bracket taken
  lazily, and a closing bracket. \<open>tag_end\<close> is the lazy part after the first of those
  characters: it stops at the first closing bracket, fails at an opening bracket or at the end of the
  text, and returns what follows the match. \<open>match_tag\<close> is a match attempt at the head
  of the text; \<open>strip_tags\<close> is the scan of \<^verbatim>\<open>re.sub\<close>: a match is dropped and the
  scan resumes after it, otherwise one character is copied.
\<close>

fun tag_end :: "string \<Rightarrow> string option" where
  "tag_end [] = None"
| "tag_end (x # r) =
     (if x = CHR ''>'' then Some r else if x = CHR ''<'' then None else tag_end r)"

fun match_tag :: "string \<Rightarrow> string option" where
  "match_tag (a # c # r) = (if a = CHR ''<'' \<and> c \<noteq> CHR ''<'' then tag_end r else None)"
| "match_tag _ = None"

lemma tag_end_shorter: "tag_end s = Some r \<Longrightarrow> length r < length s"
  by (induction s) (auto split: if_splits)

lemma match_tag_shorter: "match_tag s = Some r \<Longrightarrow> length r < length s"
  by (cases s rule: match_tag.cases) (auto split: if_splits dest: tag_end_shorter)

function strip_tags :: "string \<Rightarrow> string" where
  "strip_tags [] = []"
| "strip_tags (x # xs) =
     (case match_tag (x # xs) of Some r \<Rightarrow> strip_tags r | None \<Rightarrow> x # strip_tags xs)"
  by pat_completeness auto
termination
  by (relation "measure length") (auto dest: match_tag_shorter)

section \<open>Raw and normalized records (utils.py)\<close>

text \<open>
  A raw record is the JSON object the API sends: every key may be absent, so every
  field is an option. A category entry is a plain string or an object with the keys
  \<^verbatim>\<open>id\<close> and \<^verbatim>\<open>label\<close>.
\<close>

record cat_obj =
  cat_id :: "string option"
  cat_label :: "string option"

datatype category = CatStr string | CatObj cat_obj

record origin =
  origin_title :: "string option"
  origin_streamId :: "string option"

record alternate =
  alt_type :: "string option"
  alt_href :: "string option"

record content_obj =
  content_text :: "string option"

record item =
  item_id :: "string option"
  item_title :: "string option"
  item_published :: "int option"
  item_author :: "string option"
  item_origin :: "origin option"
  item_categories :: "category list option"
  item_alternate :: "alternate list option"
  item_summary :: "content_obj option"
  item_content :: "content_obj option"

record article =
  art_id :: string
  art_title :: string
  art_published :: int
  art_published_date :: "string option"
  art_author :: string
  art_feed_title :: string
  art_feed_id :: string
  art_categories :: "string list"
  art_is_read :: bool
  art_url :: "string option"
  art_summary :: "string option"

record subscription =
  sub_id :: "string option"
  sub_title :: "string option"
  sub_url :: "string option"
  sub_htmlUrl :: "string option"
  sub_categories :: "category list option"
  sub_firstitemmsec :: "int option"

record feed =
  fd_id :: string
  fd_title :: string
  fd_url :: string
  fd_htmlUrl :: string
  fd_categories :: "string list"
  fd_firstItemMsec :: int

text \<open>\<^verbatim>\<open>d.get(key, default)\<close> on an optional field.\<close>

definition get_or :: "'a option \<Rightarrow> 'a \<Rightarrow> 'a" where
  "get_or v d = (case v of None \<Rightarrow> d | Some x \<Rightarrow> x)"

subsection \<open>\<^verbatim>\<open>datetime.fromtimestamp(t).isoformat()\<close>\<close>

text \<open>
  The standard library call, for an integer timestamp, as CPython makes it on a platform
  with a 64-bit \<^verbatim>\<open>time_t\<close>. The local time zone is the parameter \<open>utcoffset\<close>: the
  zone's offset from UTC, in seconds, at an instant. The civil date comes from the day
  count by the usual era arithmetic of the proleptic Gregorian calendar.

  \<open>local_seconds\<close> is one reading of the local clock at an instant: the platform's
  \<^verbatim>\<open>localtime\<close> fails when the year does not fit its 32-bit field (\<^verbatim>\<open>OSError\<close>), and a
  year outside 1..9999 raises \<^verbatim>\<open>ValueError\<close> with the year as the 32-bit field holds it.
  The call reads the clock at the instant itself, then 24 hours earlier to detect a
  repeated hour, and once more at the transition when the offset has dropped in between;
  each reading can raise. A timestamp that does not fit \<^verbatim>\<open>time_t\<close> raises
  \<^verbatim>\<open>OverflowError\<close> before any reading.
\<close>

definition civil_from_days :: "int \<Rightarrow> int \<times> int \<times> int" where
  "civil_from_days z0 =
     (let z = z0 + 719468;
          era = z div 146097;
          doe = z mod 146097;
          yoe = (doe - doe div 1460 + doe div 36524 - doe div 146096) div 365;
          doy = doe - (365 * yoe + yoe div 4 - yoe div 100);
          mp = (5 * doy + 2) div 153;
          d = doy - (153 * mp + 2) div 5 + 1;
          m = (if mp < 10 then mp + 3 else mp - 9);
          y = yoe + era * 400 + (if m \<le> 2 then 1 else 0)
      in (y, m, d))"

text \<open>\<^verbatim>\<open>"%0wd" % n\<close> for a non-negative \<open>n\<close>.\<close>

definition zero_pad :: "nat \<Rightarrow> int \<Rightarrow> string" where
  "zero_pad w n = replicate (w - length (str_int n)) CHR ''0'' @ str_int n"

definition wrap32 :: "int \<Rightarrow> int" where
  "wrap32 y = (y + 2147483648) mod 4294967296 - 2147483648"

definition local_seconds :: "(int \<Rightarrow> int) \<Rightarrow> int \<Rightarrow> pyexc + int" where
  "local_seconds utcoffset u =
     (let local = u + utcoffset u;
          (y, m, d) = civil_from_days (local div 86400)
      in if y - 1900 < - 2147483648 \<or> 2147483647 < y - 1900
         then Inl (PyExc OSError ''[Errno 75] Value too large for defined data type'')
         else if wrap32 y < 1 \<or> 9999 < wrap32 y
         then Inl (PyExc ValueError (''year '' @ str_int (wrap32 y) @ '' is out of range''))
         else Inr local)"

definition isoformat_local :: "int \<Rightarrow> string" where
  "isoformat_local local =
     (let (y, m, d) = civil_from_days (local div 86400);
          s = local mod 86400
      in zero_pad 4 y @ ''-'' @ zero_pad 2 m @ ''-'' @ zero_pad 2 d @ ''T'' @
         zero_pad 2 (s div 3600) @ '':'' @ zero_pad 2 (s mod 3600 div 60) @ '':'' @
         zero_pad 2 (s mod 60))"

definition fromtimestamp_isoformat :: "(int \<Rightarrow> int) \<Rightarrow> int \<Rightarrow> pyexc + string" where
  "fromtimestamp_isoformat utcoffset t =
     (if t < - 9223372036854775808 \<or> 9223372036854775807 < t
      then Inl (PyExc OverflowError ''timestamp out of range for platform time_t'')
      else
        (case local_seconds utcoffset t of
           Inl e \<Rightarrow> Inl e
         | Inr result \<Rightarrow>
             (case local_seconds utcoffset (t - 86400) of
                Inl e \<Rightarrow> Inl e
              | Inr probe1 \<Rightarrow>
                  (let trans = result - probe1 - 86400
                   in if trans < 0
                      then (case local_seconds utcoffset (t + trans) of
                              Inl e \<Rightarrow> Inl e
                            | Inr probe2 \<Rightarrow> Inr (isoformat_local result))
                      else Inr (isoformat_local result)))))"

subsection \<open>parse_article\<close>

fun category_label :: "category \<Rightarrow> string" where
  "category_label (CatObj c) = get_or (cat_label c) ''''"
| "category_label (CatStr s) = s"

text \<open>The operand of the \<^verbatim>\<open>in\<close> test of \<^verbatim>\<open>is_read\<close>.\<close>

fun category_ident :: "category \<Rightarrow> string" where
  "category_ident (CatObj c) = get_or (cat_id c) ''''"
| "category_ident (CatStr s) = s"

definition read_state :: string where
  "read_state = ''state/com.google/read''"

definition published_date_of :: "(int \<Rightarrow> int) \<Rightarrow> int option \<Rightarrow> pyexc + string option" where
  "published_date_of utcoffset p =
     (if p \<noteq> None \<and> p \<noteq> Some 0
      then (case fromtimestamp_isoformat utcoffset (get_or p 0) of
              Inl e \<Rightarrow> Inl e
            | Inr s \<Rightarrow> Inr (Some s))
      else Inr None)"

text \<open>The loop over \<^verbatim>\<open>item["alternate"]\<close>, with its \<^verbatim>\<open>break\<close>; \<open>u\<close> is the url so far.\<close>

fun alternate_url :: "alternate list \<Rightarrow> string option \<Rightarrow> string option" where
  "alternate_url [] u = u"
| "alternate_url (alt # alts) u =
     (if alt_type alt = Some ''text/html'' then alt_href alt else alternate_url alts u)"

definition truncate_summary :: "string \<Rightarrow> string" where
  "truncate_summary s = (if length s > 500 then take 500 s @ ''...'' else s)"

definition parse_article :: "(int \<Rightarrow> int) \<Rightarrow> item \<Rightarrow> pyexc + article" where
  "parse_article utcoffset it =
     (case published_date_of utcoffset (item_published it) of
        Inl e \<Rightarrow> Inl e
      | Inr pd \<Rightarrow>
          Inr \<lparr> art_id = get_or (item_id it) '''',
                art_title = get_or (item_title it) ''No title'',
                art_published = get_or (item_published it) 0,
                art_published_date = pd,
                art_author = get_or (item_author it) ''Unknown'',
                art_feed_title =
                  get_or (origin_title (get_or (item_origin it)
                    \<lparr>origin_title = None, origin_streamId = None\<rparr>)) ''Unknown feed'',
                art_feed_id =
                  get_or (origin_streamId (get_or (item_origin it)
                    \<lparr>origin_title = None, origin_streamId = None\<rparr>)) '''',
                art_categories = map category_label (get_or (item_categories it) []),
                art_is_read =
                  py_any (map (\<lambda>cat. str_in read_state (category_ident cat))
                            (get_or (item_categories it) [])),
                art_url =
                  (case item_alternate it of
                     None \<Rightarrow> None
                   | Some alts \<Rightarrow> alternate_url alts None),
                art_summary =
                  (case item_summary it of
                     None \<Rightarrow> None
                   | Some sm \<Rightarrow>
                       Some (truncate_summary (strip_tags (get_or (content_text sm) '''')))) \<rparr>)"

subsection \<open>parse_feed\<close>

text \<open>
  The comprehension calls \<^verbatim>\<open>cat.get("label", "")\<close> on every entry with no type test:
  a string entry has no \<^verbatim>\<open>get\<close> and raises \<^verbatim>\<open>AttributeError\<close>.
\<close>

definition no_attribute_get :: "string \<Rightarrow> string" where
  "no_attribute_get ty =
     [CHR 0x27] @ ty @ [CHR 0x27] @ '' object has no attribute '' @ [CHR 0x27] @ ''get'' @ [CHR 0x27]"

fun feed_category_labels :: "category list \<Rightarrow> pyexc + string list" where
  "feed_category_labels [] = Inr []"
| "feed_category_labels (CatStr s # cs) =
     Inl (PyExc AttributeError (no_attribute_get ''str''))"
| "feed_category_labels (CatObj c # cs) =
     (case feed_category_labels cs of
        Inl e \<Rightarrow> Inl e
      | Inr ls \<Rightarrow> Inr (get_or (cat_label c) '''' # ls))"

definition parse_feed :: "subscription \<Rightarrow> pyexc + feed" where
  "parse_feed sub =
     (case feed_category_labels (get_or (sub_categories sub) []) of
        Inl e \<Rightarrow> Inl e
      | Inr ls \<Rightarrow>
          Inr \<lparr> fd_id = get_or (sub_id sub) '''',
                fd_title = get_or (sub_title sub) ''Untitled'',
                fd_url = get_or (sub_url sub) '''',
                fd_htmlUrl = get_or (sub_htmlUrl sub) '''',
                fd_categories = ls,
                fd_firstItemMsec = get_or (sub_firstitemmsec sub) 0 \<rparr>)"

subsection \<open>chunk_list\<close>

text \<open>
  \<^verbatim>\<open>[lst[i : i + chunk_size] for i in range(0, len(lst), chunk_size)]\<close>: \<open>chunks_from\<close>
  is the comprehension from index \<open>i\<close> on, for a positive step. A step of zero makes
  \<^verbatim>\<open>range\<close> raise; a negative step gives the empty range.
\<close>

function chunks_from :: "'a list \<Rightarrow> nat \<Rightarrow> nat \<Rightarrow> 'a list list" where
  "chunks_from lst n i =
     (if n = 0 \<or> length lst \<le> i then [] else take n (drop i lst) # chunks_from lst n (i + n))"
  by pat_completeness auto
termination
  by (relation "measure (\<lambda>(lst, n, i). length lst - i)") auto

declare chunks_from.simps [simp del]

definition chunk_list :: "'a list \<Rightarrow> int \<Rightarrow> pyexc + 'a list list" where
  "chunk_list lst chunk_size =
     (if chunk_size = 0 then Inl (PyExc ValueError ''range() arg 3 must not be zero'')
      else if chunk_size < 0 then Inr []
      else Inr (chunks_from lst (nat chunk_size) 0))"

subsection \<open>Splitting and replacing\<close>

text \<open>
  \<^verbatim>\<open>s.split(sep)\<close> and \<^verbatim>\<open>s.replace(old, new)\<close>, for a non-empty \<open>sep\<close> and \<open>old\<close> (the
  only way the source calls them): both scan from the left and continue after each
  occurrence.
\<close>

function split_str :: "string \<Rightarrow> string \<Rightarrow> string list" where
  "split_str sep [] = [[]]"
| "split_str sep (c # cs) =
     (if sep \<noteq> [] \<and> startswith (c # cs) sep
      then [] # split_str sep (drop (length sep) (c # cs))
      else (case split_str sep cs of
              [] \<Rightarrow> [[c]]
            | w # ws \<Rightarrow> (c # w) # ws))"
  by pat_completeness auto
termination
  by (relation "measure (\<lambda>(sep, s). length s)") (auto simp: neq_Nil_conv)

function str_replace :: "string \<Rightarrow> string \<Rightarrow> string \<Rightarrow> string" where
  "str_replace old new [] = []"
| "str_replace old new (c # cs) =
     (if old \<noteq> [] \<and> startswith (c # cs) old
      then new @ str_replace old new (drop (length old) (c # cs))
      else c # str_replace old new cs)"
  by pat_completeness auto
termination
  by (relation "measure (\<lambda>(old, new, s). length s)") (auto simp: neq_Nil_conv)

text \<open>\<^verbatim>\<open>s.lower()\<close> on the code points below 256.\<close>

definition lower_char :: "char \<Rightarrow> char" where
  "lower_char c =
     (let n = (of_char c :: nat)
      in if (65 \<le> n \<and> n \<le> 90) \<or> (192 \<le> n \<and> n \<le> 214) \<or> (216 \<le> n \<and> n \<le> 222)
         then char_of (n + 32) else c)"

definition lower :: "string \<Rightarrow> string" where
  "lower s = map lower_char s"


subsection \<open>Formatting\<close>

definition nl :: string where
  "nl = [CHR 0x0A]"

text \<open>\<^verbatim>\<open>sep.join(parts)\<close>.\<close>

fun join :: "string \<Rightarrow> string list \<Rightarrow> string" where
  "join sep [] = []"
| "join sep [p] = p"
| "join sep (p # q # ps) = p @ sep @ join sep (q # ps)"

text \<open>How an f-string renders an optional text: \<^verbatim>\<open>None\<close> prints as the word.\<close>

definition str_opt :: "string option \<Rightarrow> string" where
  "str_opt v = (case v of None \<Rightarrow> ''None'' | Some s \<Rightarrow> s)"

text \<open>Truth value of an optional text: \<^verbatim>\<open>None\<close> and the empty string are false.\<close>

definition truthy :: "string option \<Rightarrow> bool" where
  "truthy v = (v \<noteq> None \<and> v \<noteq> Some [])"

text \<open>
  The two status glyphs of the article list lie outside the range of \<^typ>\<open>char\<close>; each
  stands as its UTF-8 bytes (U+2713 and U+2022).
\<close>

definition check_mark :: string where
  "check_mark = [CHR 0xE2, CHR 0x9C, CHR 0x93]"

definition bullet :: string where
  "bullet = [CHR 0xE2, CHR 0x80, CHR 0xA2]"

text \<open>The lines of one article, numbered \<open>i\<close>.\<close>

definition article_lines :: "nat \<Rightarrow> article \<Rightarrow> string list" where
  "article_lines i a =
     [str_int (int i) @ ''. '' @ (if art_is_read a then check_mark else bullet) @ '' '' @ art_title a,
      ''   Feed: '' @ art_feed_title a,
      ''   Date: '' @ str_opt (art_published_date a),
      (if truthy (art_url a) then ''   Link: '' @ str_opt (art_url a)
       else ''   Link: No URL available''),
      '''']"

fun articles_lines :: "nat \<Rightarrow> article list \<Rightarrow> string list" where
  "articles_lines i [] = []"
| "articles_lines i (a # as) = article_lines i a @ articles_lines (Suc i) as"

definition format_article_list :: "article list \<Rightarrow> string" where
  "format_article_list articles =
     (if articles = [] then ''No articles found.'' else join nl (articles_lines 1 articles))"

definition feed_lines :: "nat \<Rightarrow> feed \<Rightarrow> string list" where
  "feed_lines i f =
     [str_int (int i) @ ''. '' @ fd_title f] @
     (if fd_categories f \<noteq> [] then [''   Categories: '' @ join '', '' (fd_categories f)] else []) @
     [''   URL: '' @ fd_url f, '''']"

fun feeds_lines :: "nat \<Rightarrow> feed list \<Rightarrow> string list" where
  "feeds_lines i [] = []"
| "feeds_lines i (f # fs) = feed_lines i f @ feeds_lines (Suc i) fs"

definition format_feed_list :: "feed list \<Rightarrow> string" where
  "format_feed_list feeds =
     (if feeds = [] then ''No feeds found.'' else join nl (feeds_lines 1 feeds))"


subsection \<open>days_to_timestamp\<close>

text \<open>
  The platform's clock and time zone are parameters: \<open>clock\<close> and \<open>clock_micro\<close> are the
  second and the microsecond of the instant \<^verbatim>\<open>datetime.now()\<close> reads, \<open>utcoffset\<close> is as
  above, and \<open>timestamp\<close> is the library's \<^verbatim>\<open>timestamp()\<close> of a naive local time (its
  second of the local calendar and its microsecond): the float it returns, or the
  exception it raises. A float is its mantissa and binary exponent; \<^verbatim>\<open>int(x)\<close> truncates
  it towards zero. \<^verbatim>\<open>timedelta(days=days)\<close> raises for more than 999999999 days either
  way, and the subtraction raises when the date leaves the years 1..9999.
\<close>

datatype pyfloat = PyFloat int int

fun int_of_float :: "pyfloat \<Rightarrow> int" where
  "int_of_float (PyFloat m e) =
     (if 0 \<le> e then m * 2 ^ nat e
      else if 0 \<le> m then m div 2 ^ nat (- e)
      else - ((- m) div 2 ^ nat (- e)))"

record platform =
  clock :: int
  clock_micro :: int
  utcoffset :: "int \<Rightarrow> int"
  timestamp :: "int \<Rightarrow> int \<Rightarrow> pyexc + pyfloat"

definition days_to_timestamp :: "platform \<Rightarrow> int \<Rightarrow> pyexc + int" where
  "days_to_timestamp pf days =
     (if days < - 999999999 \<or> 999999999 < days
      then Inl (PyExc OverflowError
             (''days='' @ str_int days @ ''; must have magnitude <= 999999999''))
      else
        (let local = clock pf + utcoffset pf (clock pf) - days * 86400;
             (y, m, d) = civil_from_days (local div 86400)
         in if y < 1 \<or> 9999 < y then Inl (PyExc OverflowError ''date value out of range'')
            else (case timestamp pf local (clock_micro pf) of
                    Inl e \<Rightarrow> Inl e
                  | Inr x \<Rightarrow> Inr (int_of_float x))))"

section \<open>The gateway client (client.py)\<close>

subsection \<open>Configuration, requests and responses\<close>

text \<open>
  \<^verbatim>\<open>Config\<close> is not among the source files; the values the client reads from it are the
  fields of \<open>config\<close>.
\<close>

record config =
  base_url :: string
  app_id :: string
  app_key :: string
  username :: string
  password :: string
  max_articles_per_request :: int

datatype pval = PInt int | PStr string | PStrs "string list"

record request =
  req_method :: string
  req_url :: string
  req_params :: "(string \<times> pval) list option"
  req_data :: "(string \<times> pval) list option"
  req_headers :: "(string \<times> string) list"

record unread =
  ur_id :: "string option"
  ur_count :: "int option"

text \<open>A JSON object the API answers with; each of the keys the adapter reads may be absent.\<close>

record payload =
  subscriptions :: "subscription list option"
  items :: "item list option"
  unreadcounts :: "unread list option"

text \<open>
  A Python value that \<^verbatim>\<open>await resp.json()\<close> and \<^verbatim>\<open>_request\<close> can return: a \<^verbatim>\<open>str\<close>
  (the raw text of a response, or a JSON document that is a string), a \<^verbatim>\<open>dict\<close> (a JSON
  object), or a value of another JSON type, of which only the type matters to the code.
\<close>

datatype other_kind = KNone | KBool | KInt | KFloat | KList

fun type_name :: "other_kind \<Rightarrow> string" where
  "type_name KNone = ''NoneType''"
| "type_name KBool = ''bool''"
| "type_name KInt = ''int''"
| "type_name KFloat = ''float''"
| "type_name KList = ''list''"

datatype reply = Text string | Json payload | Other other_kind

text \<open>
  A response: its status, its \<^verbatim>\<open>Content-Type\<close> header, \<^verbatim>\<open>await resp.text()\<close>, and the
  outcome of \<^verbatim>\<open>await resp.json()\<close> (the decoded value, or the decoder's exception).
\<close>

record response =
  resp_status :: int
  resp_content_type :: "string option"
  resp_text :: string
  resp_json :: "pyexc + reply"

subsection \<open>The state a call runs in\<close>

text \<open>
  The network is a script: \<open>pending\<close> holds what the transport will do with each of the
  requests to come (raise, or answer), \<open>sent\<close> the requests issued so far. \<open>opened\<close> and
  \<open>closed\<close> count the transport sessions created and released. \<open>auth_token\<close> and
  \<open>cache\<close> are the fields of the client object; a TTL entry never expires inside the
  one call a client object lives for, so the cache is a plain association list.
\<close>

datatype outcome = Fails pyexc | Responds response

record world =
  pending :: "outcome list"
  sent :: "request list"
  opened :: nat
  closed :: nat
  auth_token :: "string option"
  cache :: "(string \<times> subscription list) list"

type_synonym 'a action = "world \<Rightarrow> (pyexc + 'a) \<times> world"

text \<open>One round trip of the session. With nothing scripted the connection fails.\<close>

definition send :: "request \<Rightarrow> response action" where
  "send rq w =
     (case pending w of
        [] \<Rightarrow> (Inl (PyExc ClientError ''Cannot connect to host''), w\<lparr>sent := sent w @ [rq]\<rparr>)
      | Fails e # os \<Rightarrow> (Inl e, w\<lparr>pending := os, sent := sent w @ [rq]\<rparr>)
      | Responds r # os \<Rightarrow> (Inr r, w\<lparr>pending := os, sent := sent w @ [rq]\<rparr>))"

subsection \<open>Authentication and the session scope\<close>

definition auth_url :: string where
  "auth_url = ''https://www.inoreader.com/accounts/ClientLogin''"

definition auth_request :: "config \<Rightarrow> request" where
  "auth_request cfg =
     \<lparr> req_method = ''POST'', req_url = auth_url, req_params = None,
       req_data = Some [(''Email'', PStr (username cfg)), (''Passwd'', PStr (password cfg))],
       req_headers = [(''AppId'', app_id cfg), (''AppKey'', app_key cfg)] \<rparr>"

definition authenticate :: "config \<Rightarrow> unit action" where
  "authenticate cfg w =
     (case send (auth_request cfg) w of
        (Inl e, w1) \<Rightarrow> (Inl e, w1)
      | (Inr resp, w1) \<Rightarrow>
          if resp_status resp \<noteq> 200
          then (Inl (PyExc Exception
                  (''Authentication failed: '' @ str_int (resp_status resp) @ '' - '' @ resp_text resp)),
                w1)
          else
            (let w2 = (case find (\<lambda>line. startswith line ''Auth='')
                              (split_str nl (resp_text resp)) of
                         None \<Rightarrow> w1
                       | Some line \<Rightarrow> w1\<lparr>auth_token := Some (drop 5 line)\<rparr>)
             in if \<not> truthy (auth_token w2)
                then (Inl (PyExc Exception ''No auth token received''), w2)
                else (Inr (), w2)))"

text \<open>\<^verbatim>\<open>__aexit__\<close>: the session, which \<^verbatim>\<open>__aenter__\<close> has set, is closed.\<close>

definition aexit :: "world \<Rightarrow> world" where
  "aexit w = w\<lparr>closed := closed w + 1\<rparr>"

text \<open>
  \<^verbatim>\<open>async with InoreaderClient() as client: body\<close>. The constructor sets the token to
  \<^verbatim>\<open>None\<close> and the cache empty; \<^verbatim>\<open>__aenter__\<close> creates the session and authenticates.
  Python runs \<^verbatim>\<open>__aexit__\<close> when the body has been entered, whether it returns or raises;
  when \<^verbatim>\<open>__aenter__\<close> itself raises, the body is not entered and \<^verbatim>\<open>__aexit__\<close> is not
  run. \<^verbatim>\<open>__aexit__\<close> returns \<^verbatim>\<open>None\<close>, so an exception of the body propagates.
\<close>

definition new_client :: "world \<Rightarrow> world" where
  "new_client w = w\<lparr>auth_token := None, cache := []\<rparr>"

definition open_session :: "world \<Rightarrow> world" where
  "open_session w = w\<lparr>opened := opened w + 1\<rparr>"

definition with_client :: "config \<Rightarrow> 'a action \<Rightarrow> 'a action" where
  "with_client cfg body w =
     (case authenticate cfg (open_session (new_client w)) of
        (Inl e, w2) \<Rightarrow> (Inl e, w2)
      | (Inr u, w2) \<Rightarrow> (case body w2 of (r, w3) \<Rightarrow> (r, aexit w3)))"

subsection \<open>Requests\<close>

definition get_headers :: "config \<Rightarrow> world \<Rightarrow> (string \<times> string) list" where
  "get_headers cfg w =
     [(''Authorization'', ''GoogleLogin auth='' @ str_opt (auth_token w)),
      (''AppId'', app_id cfg),
      (''AppKey'', app_key cfg)]"

text \<open>
  \<^verbatim>\<open>_request\<close>: a status other than 200 raises; a JSON content type gives the decoded
  value, whatever its type (or the decoder's exception); anything else gives the text as
  it is.
\<close>

definition request ::
  "config \<Rightarrow> string \<Rightarrow> string \<Rightarrow> (string \<times> pval) list option \<Rightarrow> (string \<times> pval) list option \<Rightarrow>
   reply action" where
  "request cfg method endpoint params data w =
     (case send \<lparr> req_method = method, req_url = base_url cfg @ ''/'' @ endpoint,
                  req_params = params, req_data = data, req_headers = get_headers cfg w \<rparr> w of
        (Inl e, w1) \<Rightarrow> (Inl e, w1)
      | (Inr resp, w1) \<Rightarrow>
          if resp_status resp \<noteq> 200
          then (Inl (PyExc Exception
                  (''API request failed: '' @ str_int (resp_status resp) @ '' - '' @ resp_text resp)),
                w1)
          else if str_in ''application/json'' (get_or (resp_content_type resp) '''')
          then (case resp_json resp of
                  Inl e \<Rightarrow> (Inl e, w1)
                | Inr v \<Rightarrow> (Inr v, w1))
          else (Inr (Text (resp_text resp)), w1))"

text \<open>
  \<^verbatim>\<open>result.get(key, default)\<close> on what \<^verbatim>\<open>_request\<close> returned: only a \<^verbatim>\<open>dict\<close> has
  \<^verbatim>\<open>get\<close>.
\<close>

definition reply_get :: "reply \<Rightarrow> (payload \<Rightarrow> 'a option) \<Rightarrow> 'a \<Rightarrow> pyexc + 'a" where
  "reply_get r key d =
     (case r of
        Text t \<Rightarrow> Inl (PyExc AttributeError (no_attribute_get ''str''))
      | Json j \<Rightarrow> Inr (get_or (key j) d)
      | Other k \<Rightarrow> Inl (PyExc AttributeError (no_attribute_get (type_name k))))"

subsection \<open>The operations of the client\<close>

definition get_subscription_list :: "config \<Rightarrow> subscription list action" where
  "get_subscription_list cfg w =
     (case map_of (cache w) ''subscription_list'' of
        Some subs \<Rightarrow> (Inr subs, w)
      | None \<Rightarrow>
          (case request cfg ''GET'' ''subscription/list'' None None w of
             (Inl e, w1) \<Rightarrow> (Inl e, w1)
           | (Inr result, w1) \<Rightarrow>
               (case reply_get result subscriptions [] of
                  Inl e \<Rightarrow> (Inl e, w1)
                | Inr subs \<Rightarrow>
                    (Inr subs, w1\<lparr>cache := (''subscription_list'', subs) # cache w1\<rparr>))))"

definition empty_items :: payload where
  "empty_items = \<lparr> subscriptions = None, items = Some [], unreadcounts = None \<rparr>"

text \<open>Truth value of an optional integer: \<^verbatim>\<open>None\<close> and zero are false.\<close>

definition truthy_int :: "int option \<Rightarrow> bool" where
  "truthy_int v = (v \<noteq> None \<and> v \<noteq> Some 0)"

definition get_stream_contents ::
  "config \<Rightarrow> string option \<Rightarrow> int \<Rightarrow> bool \<Rightarrow> int option \<Rightarrow> reply action" where
  "get_stream_contents cfg stream_id count exclude_read newer_than w =
     (let params =
            [(''n'', PInt (min count (max_articles_per_request cfg))), (''output'', PStr ''json'')] @
            (if exclude_read then [(''xt'', PStr ''user/-/state/com.google/read'')] else []) @
            (if truthy_int newer_than then [(''ot'', PInt (get_or newer_than 0))] else []);
          endpoint =
            (if truthy stream_id then ''stream/contents/'' @ get_or stream_id ''''
             else ''stream/contents/user/-/state/com.google/reading-list'')
      in case request cfg ''GET'' endpoint (Some params) None w of
           (Inl e, w1) \<Rightarrow> (Inl e, w1)
         | (Inr result, w1) \<Rightarrow>
             (Inr (case result of Text t \<Rightarrow> Json empty_items | _ \<Rightarrow> result), w1))"

definition get_stream_item_contents :: "config \<Rightarrow> string list \<Rightarrow> reply action" where
  "get_stream_item_contents cfg item_ids w =
     (if item_ids = [] then (Inr (Json empty_items), w)
      else request cfg ''POST'' ''stream/items/contents'' None (Some [(''i'', PStrs item_ids)]) w)"

definition client_mark_as_read :: "config \<Rightarrow> string list \<Rightarrow> bool action" where
  "client_mark_as_read cfg item_ids w =
     (if item_ids = [] then (Inr True, w)
      else
        (case request cfg ''POST'' ''edit-tag'' None
                (Some [(''i'', PStrs item_ids), (''a'', PStr ''user/-/state/com.google/read'')]) w of
           (Inl e, w1) \<Rightarrow> (Inl e, w1)
         | (Inr result, w1) \<Rightarrow> (Inr (result = Text ''OK''), w1)))"

definition search :: "config \<Rightarrow> string \<Rightarrow> int \<Rightarrow> int option \<Rightarrow> reply action" where
  "search cfg query count newer_than w =
     (let params =
            [(''q'', PStr query),
             (''n'', PInt (min count (max_articles_per_request cfg))),
             (''output'', PStr ''json'')] @
            (if truthy_int newer_than then [(''ot'', PInt (get_or newer_than 0))] else [])
      in case request cfg ''GET'' ''stream/contents/user/-/state/com.google/search''
                (Some params) None w of
           (Inl e, w1) \<Rightarrow> (Inl e, w1)
         | (Inr result, w1) \<Rightarrow>
             (Inr (case result of Text t \<Rightarrow> Json empty_items | _ \<Rightarrow> result), w1))"

definition get_unread_count :: "config \<Rightarrow> unread list action" where
  "get_unread_count cfg w =
     (case request cfg ''GET'' ''unread-count'' None None w of
        (Inl e, w1) \<Rightarrow> (Inl e, w1)
      | (Inr result, w1) \<Rightarrow>
          (case reply_get result unreadcounts [] of
             Inl e \<Rightarrow> (Inl e, w1)
           | Inr counts \<Rightarrow> (Inr counts, w1)))"

section \<open>The tool operations (tools.py)\<close>

text \<open>
  Each operation is \<^verbatim>\<open>try: ... except Exception as e: return f"<prefix>{str(e)}"\<close>:
  \<open>guarded\<close> is that handler around the body. All the exceptions of this model are
  subclasses of \<^verbatim>\<open>Exception\<close>.
\<close>

definition guarded :: "string \<Rightarrow> string action \<Rightarrow> world \<Rightarrow> string \<times> world" where
  "guarded prefix body w =
     (case body w of
        (Inl e, w1) \<Rightarrow> (prefix @ exc_str e, w1)
      | (Inr s, w1) \<Rightarrow> (s, w1))"

text \<open>A list comprehension whose element expression can raise.\<close>

fun map_exc :: "('a \<Rightarrow> pyexc + 'b) \<Rightarrow> 'a list \<Rightarrow> pyexc + 'b list" where
  "map_exc f [] = Inr []"
| "map_exc f (x # xs) =
     (case f x of
        Inl e \<Rightarrow> Inl e
      | Inr y \<Rightarrow> (case map_exc f xs of Inl e \<Rightarrow> Inl e | Inr ys \<Rightarrow> Inr (y # ys)))"

subsection \<open>list_feeds\<close>

definition list_feeds_body :: "config \<Rightarrow> string action" where
  "list_feeds_body cfg w =
     (case get_subscription_list cfg w of
        (Inl e, w1) \<Rightarrow> (Inl e, w1)
      | (Inr subs, w1) \<Rightarrow>
          (case map_exc parse_feed subs of
             Inl e \<Rightarrow> (Inl e, w1)
           | Inr feeds \<Rightarrow>
               if feeds = [] then (Inr ''No feeds found in your Inoreader account.'', w1)
               else (Inr (''Found '' @ str_int (int (length feeds)) @ '' feeds:'' @ nl @ nl @
                          format_feed_list (sort_key (\<lambda>f. lower (fd_title f)) feeds)), w1)))"

definition list_feeds :: "config \<Rightarrow> world \<Rightarrow> string \<times> world" where
  "list_feeds cfg = guarded ''Error listing feeds: '' (with_client cfg (list_feeds_body cfg))"

subsection \<open>list_articles\<close>

definition newer_than_of :: "platform \<Rightarrow> int option \<Rightarrow> pyexc + int option" where
  "newer_than_of pf days =
     (if truthy_int days
      then (case days_to_timestamp pf (get_or days 0) of Inl e \<Rightarrow> Inl e | Inr t \<Rightarrow> Inr (Some t))
      else Inr None)"

definition list_articles_body ::
  "config \<Rightarrow> platform \<Rightarrow> int \<Rightarrow> int \<Rightarrow> string option \<Rightarrow> bool \<Rightarrow> string action" where
  "list_articles_body cfg pf limit days feed_id unread_only w =
     (case newer_than_of pf (Some days) of
        Inl e \<Rightarrow> (Inl e, w)
      | Inr newer_than \<Rightarrow>
          (case get_stream_contents cfg feed_id limit unread_only newer_than w of
             (Inl e, w1) \<Rightarrow> (Inl e, w1)
           | (Inr (Text t), w1) \<Rightarrow> (Inr ''Error: API returned unexpected response format'', w1)
           | (Inr stream_contents, w1) \<Rightarrow>
               (case reply_get stream_contents items [] of
                  Inl e \<Rightarrow> (Inl e, w1)
                | Inr its \<Rightarrow>
               (case map_exc (parse_article (utcoffset pf)) its of
                  Inl e \<Rightarrow> (Inl e, w1)
                | Inr articles \<Rightarrow>
                    if articles = [] then
                      (let filters =
                             (if unread_only then [''unread''] else []) @
                             (if days \<noteq> 0 then [''from the last '' @ str_int days @ '' days''] else []) @
                             (if truthy feed_id then [''in feed '' @ str_opt feed_id] else []);
                           filter_str = join '' '' filters
                       in (Inr (''No articles found'' @
                                (if filter_str \<noteq> [] then '' '' @ filter_str else []) @ ''.''), w1))
                    else
                      (Inr (''Found '' @ str_int (int (length articles)) @ '' articles'' @
                            (if unread_only then '' (unread only)'' else []) @
                            (if days \<noteq> 0 then '' from the last '' @ str_int days @ '' days'' else []) @
                            '':'' @ nl @ nl @ format_article_list articles), w1)))))"

definition list_articles ::
  "config \<Rightarrow> platform \<Rightarrow> int \<Rightarrow> int \<Rightarrow> string option \<Rightarrow> bool \<Rightarrow> world \<Rightarrow> string \<times> world" where
  "list_articles cfg pf limit days feed_id unread_only =
     guarded ''Error listing articles: ''
       (with_client cfg (list_articles_body cfg pf limit days feed_id unread_only))"

subsection \<open>search_articles\<close>

definition quoted :: "string \<Rightarrow> string" where
  "quoted s = [CHR 0x27] @ s @ [CHR 0x27]"

definition search_articles_body ::
  "config \<Rightarrow> platform \<Rightarrow> string \<Rightarrow> int \<Rightarrow> int option \<Rightarrow> string action" where
  "search_articles_body cfg pf query limit days w =
     (case newer_than_of pf days of
        Inl e \<Rightarrow> (Inl e, w)
      | Inr newer_than \<Rightarrow>
          (case search cfg query limit newer_than w of
             (Inl e, w1) \<Rightarrow> (Inl e, w1)
           | (Inr result, w1) \<Rightarrow>
               (case reply_get result items [] of
                  Inl e \<Rightarrow> (Inl e, w1)
                | Inr its \<Rightarrow>
               (case map_exc (parse_article (utcoffset pf)) its of
                  Inl e \<Rightarrow> (Inl e, w1)
                | Inr articles \<Rightarrow>
                    if articles = [] then (Inr (''No articles found matching '' @ quoted query), w1)
                    else
                      (Inr (''Found '' @ str_int (int (length articles)) @ '' articles matching '' @
                            quoted query @
                            (if truthy_int days
                             then '' from the last '' @ str_int (get_or days 0) @ '' days'' else []) @
                            '':'' @ nl @ nl @ format_article_list articles), w1)))))"

definition search_articles ::
  "config \<Rightarrow> platform \<Rightarrow> string \<Rightarrow> int \<Rightarrow> int option \<Rightarrow> world \<Rightarrow> string \<times> world" where
  "search_articles cfg pf query limit days =
     guarded ''Error searching articles: ''
       (with_client cfg (search_articles_body cfg pf query limit days))"

subsection \<open>get_content\<close>

definition get_content_body :: "config \<Rightarrow> platform \<Rightarrow> string \<Rightarrow> string action" where
  "get_content_body cfg pf article_id w =
     (case get_stream_item_contents cfg [article_id] w of
        (Inl e, w1) \<Rightarrow> (Inl e, w1)
      | (Inr result, w1) \<Rightarrow>
          (case reply_get result items [] of
             Inl e \<Rightarrow> (Inl e, w1)
           | Inr [] \<Rightarrow> (Inr (''Article with ID '' @ article_id @ '' not found.''), w1)
           | Inr (it # rest) \<Rightarrow>
               (case parse_article (utcoffset pf) it of
                  Inl e \<Rightarrow> (Inl e, w1)
                | Inr a \<Rightarrow>
                    (Inr (''**'' @ art_title a @ ''**'' @ nl @
                          ''Author: '' @ art_author a @ nl @
                          ''Feed: '' @ art_feed_title a @ nl @
                          ''Date: '' @ str_opt (art_published_date a) @ nl @
                          (if truthy (art_url a) then ''Link: '' @ str_opt (art_url a) @ nl
                           else ''Link: No URL available'' @ nl) @
                          ''Status: '' @ (if art_is_read a then ''Read'' else ''Unread'') @ nl @
                          (case item_content it of
                             Some c \<Rightarrow>
                               (if get_or (content_text c) '''' \<noteq> []
                                then nl @ ''---'' @ nl @ nl @ get_or (content_text c) ''''
                                else [])
                           | None \<Rightarrow>
                               (if truthy (art_summary a)
                                then nl @ ''---'' @ nl @ nl @ str_opt (art_summary a)
                                else nl @ ''---'' @ nl @ nl @
                                     ''No content available for this article.''))), w1))))"

definition get_content :: "config \<Rightarrow> platform \<Rightarrow> string \<Rightarrow> world \<Rightarrow> string \<times> world" where
  "get_content cfg pf article_id =
     guarded ''Error getting article content: '' (with_client cfg (get_content_body cfg pf article_id))"

subsection \<open>mark_as_read\<close>

text \<open>The loop over the chunks; \<open>n\<close> is \<^verbatim>\<open>success_count\<close>.\<close>

fun mark_chunks :: "config \<Rightarrow> string list list \<Rightarrow> nat \<Rightarrow> nat action" where
  "mark_chunks cfg [] n w = (Inr n, w)"
| "mark_chunks cfg (chunk # chunks) n w =
     (case client_mark_as_read cfg chunk w of
        (Inl e, w1) \<Rightarrow> (Inl e, w1)
      | (Inr success, w1) \<Rightarrow>
          mark_chunks cfg chunks (if success then n + length chunk else n) w1)"

definition mark_as_read_body :: "config \<Rightarrow> string list \<Rightarrow> string action" where
  "mark_as_read_body cfg article_ids w =
     (case chunk_list article_ids 20 of
        Inl e \<Rightarrow> (Inl e, w)
      | Inr chunks \<Rightarrow>
          (case mark_chunks cfg chunks 0 w of
             (Inl e, w1) \<Rightarrow> (Inl e, w1)
           | (Inr success_count, w1) \<Rightarrow>
               if success_count = length article_ids
               then (Inr (''Successfully marked '' @ str_int (int success_count) @
                          '' article(s) as read.''), w1)
               else if success_count > 0
               then (Inr (''Marked '' @ str_int (int success_count) @ '' out of '' @
                          str_int (int (length article_ids)) @ '' articles as read.''), w1)
               else (Inr ''Failed to mark articles as read.'', w1)))"

definition mark_as_read :: "config \<Rightarrow> string list \<Rightarrow> world \<Rightarrow> string \<times> world" where
  "mark_as_read cfg article_ids =
     guarded ''Error marking articles as read: ''
       (\<lambda>w. if article_ids = [] then (Inr ''No article IDs provided.'', w)
            else with_client cfg (mark_as_read_body cfg article_ids) w)"

subsection \<open>get_stats\<close>

text \<open>The loop over the unread counts; the accumulator is the total and the retained entries.\<close>

fun stats_loop :: "unread list \<Rightarrow> int \<times> (string \<times> int) list \<Rightarrow> int \<times> (string \<times> int) list" where
  "stats_loop [] acc = acc"
| "stats_loop (it # its) (total_unread, feed_stats) =
     (let count = get_or (ur_count it) 0
      in if count > 0 \<and> startswith (get_or (ur_id it) '''') ''feed/''
         then stats_loop its (total_unread + count, feed_stats @ [(get_or (ur_id it) '''', count)])
         else stats_loop its (total_unread, feed_stats))"

definition feed_name :: "string \<Rightarrow> string" where
  "feed_name ident =
     (let name = str_replace ''feed/'' '''' ident
      in if str_in ''://'' name then last (split_str ''://'' name) else name)"

definition stat_line :: "string \<times> int \<Rightarrow> string" where
  "stat_line stat = ''- '' @ feed_name (fst stat) @ '': '' @ str_int (snd stat) @ '' unread'' @ nl"

text \<open>
  \<^verbatim>\<open>sort(key=..., reverse=True)\<close> keeps entries of equal count in their order, as the
  stable sort by the negated count does.
\<close>

definition get_stats_body :: "config \<Rightarrow> string action" where
  "get_stats_body cfg w =
     (case get_unread_count cfg w of
        (Inl e, w1) \<Rightarrow> (Inl e, w1)
      | (Inr unread_counts, w1) \<Rightarrow>
          (let (total_unread, feed_stats) = stats_loop unread_counts (0, [])
           in (Inr (''**Inoreader Statistics:**'' @ nl @ nl @
                    ''Total unread articles: '' @ str_int total_unread @ nl @ nl @
                    (if feed_stats \<noteq> []
                     then ''Top feeds with unread articles:'' @ nl @
                          concat (map stat_line (take 10 (sort_key (\<lambda>stat. - snd stat) feed_stats)))
                     else [])), w1)))"

definition get_stats :: "config \<Rightarrow> world \<Rightarrow> string \<times> world" where
  "get_stats cfg = guarded ''Error getting stats: '' (with_client cfg (get_stats_body cfg))"

subsection \<open>Vocabulary of the statements\<close>



text \<open>
  \<open>request_raises os\<close>: the exception that the request layer raises on the next outcome
  of the script \<open>os\<close>, if it raises.
\<close>

definition request_raises :: "outcome list \<Rightarrow> pyexc option" where
  "request_raises os =
     (case os of
        [] \<Rightarrow> Some (PyExc ClientError ''Cannot connect to host'')
      | Fails e # rest \<Rightarrow> Some e
      | Responds r # rest \<Rightarrow>
          if resp_status r \<noteq> 200
          then Some (PyExc Exception
                 (''API request failed: '' @ str_int (resp_status r) @ '' - '' @ resp_text r))
          else if str_in ''application/json'' (get_or (resp_content_type r) '''')
          then (case resp_json r of Inl e \<Rightarrow> Some e | Inr v \<Rightarrow> None)
          else None)"




text \<open>
  \<open>one_line s\<close>: the text has no line break. \<open>recovers prefix body tool w\<close>: in the state
  \<open>w\<close> the tool returns what its body returns, and when the body raises it returns the
  prefix followed by the text of the exception, in the state the body left; that text
  is one line exactly when the text of the exception is.
\<close>

definition one_line :: "string \<Rightarrow> bool" where
  "one_line s \<longleftrightarrow> CHR 0x0A \<notin> set s"

definition recovers :: "string \<Rightarrow> string action \<Rightarrow> (world \<Rightarrow> string \<times> world) \<Rightarrow> world \<Rightarrow> bool" where
  "recovers prefix body tool w =
     (case body w of
        (Inr s, w1) \<Rightarrow> tool w = (s, w1)
      | (Inl e, w1) \<Rightarrow>
          tool w = (prefix @ exc_str e, w1) \<and>
          (one_line (fst (tool w)) \<longleftrightarrow> one_line (exc_str e)))"


subsection \<open>Example inputs\<close>

definition example_config :: config where
  "example_config =
     \<lparr> base_url = ''https://www.inoreader.com/reader/api/0'', app_id = ''1000'',
       app_key = ''key'', username = ''user'', password = ''secret'',
       max_articles_per_request = 100 \<rparr>"

definition text_response :: "int \<Rightarrow> string \<Rightarrow> response" where
  "text_response st t =
     \<lparr> resp_status = st, resp_content_type = Some ''text/plain; charset=utf-8'', resp_text = t,
       resp_json = Inl (PyExc JSONDecodeError ''Expecting value: line 1 column 1 (char 0)'') \<rparr>"

definition json_response :: "payload \<Rightarrow> response" where
  "json_response j =
     \<lparr> resp_status = 200, resp_content_type = Some ''application/json; charset=utf-8'',
       resp_text = ''{}'', resp_json = Inr (Json j) \<rparr>"

definition auth_ok :: outcome where
  "auth_ok = Responds (text_response 200 (''SID=null'' @ nl @ ''LSID=null'' @ nl @ ''Auth=G2UlCa'' @ nl))"

definition fresh_world :: "outcome list \<Rightarrow> world" where
  "fresh_world os =
     \<lparr> pending = os, sent = [], opened = 0, closed = 0, auth_token = None, cache = [] \<rparr>"


section \<open>Properties of the normalizer\<close>

subsection \<open>Substring search and tag stripping\<close>

lemma str_in_iff: "str_in n h \<longleftrightarrow> (\<exists>a b. h = a @ n @ b)"
proof (induction h)
  case Nil
  then show ?case by auto
next
  case (Cons c cs)
  show ?case
  proof (cases "startswith (c # cs) n")
    case True
    then have "c # cs = [] @ n @ drop (length n) (c # cs)"
      unfolding startswith_def by (metis append_Nil append_take_drop_id)
    then show ?thesis using True by (metis str_in.simps(2))
  next
    case False
    have "(\<exists>a b. c # cs = a @ n @ b) \<longleftrightarrow> (\<exists>a b. cs = a @ n @ b)"
    proof
      assume "\<exists>a b. c # cs = a @ n @ b"
      then obtain a b where ab: "c # cs = a @ n @ b" by blast
      show "\<exists>a b. cs = a @ n @ b"
      proof (cases a)
        case Nil
        with ab have "startswith (c # cs) n" by (simp add: startswith_def)
        with False show ?thesis by simp
      next
        case (Cons x a')
        with ab show ?thesis by auto
      qed
    next
      assume "\<exists>a b. cs = a @ n @ b"
      then obtain a b where "cs = a @ n @ b" by blast
      then have "c # cs = (c # a) @ n @ b" by simp
      then show "\<exists>a b. c # cs = a @ n @ b" by blast
    qed
    with False Cons show ?thesis by simp
  qed
qed

lemma py_any_iff: "py_any bs \<longleftrightarrow> True \<in> set bs"
  by (induction bs) auto



subsection \<open>is_read\<close>

lemma parse_article_is_read_eq:
  "parse_article tz it = Inr a \<Longrightarrow>
     art_is_read a =
       py_any (map (\<lambda>cat. str_in read_state (category_ident cat)) (get_or (item_categories it) []))"
  by (auto simp: parse_article_def split: sum.splits)

text \<open>
  C1. Whenever \<open>parse_article\<close> returns an article, its \<open>is_read\<close> field is true
  exactly when some entry of the item's categories list has an identifier that contains
  \<^verbatim>\<open>state/com.google/read\<close>: for a plain string the string itself, for an object its
  \<^verbatim>\<open>id\<close> field only. The label of an object never enters the test.
\<close>

theorem parse_article_is_read:
  assumes "parse_article tz it = Inr a"
  shows "art_is_read a \<longleftrightarrow>
     (\<exists>c \<in> set (get_or (item_categories it) []).
        case c of
          CatStr s \<Rightarrow> (\<exists>pre post. s = pre @ ''state/com.google/read'' @ post)
        | CatObj ob \<Rightarrow>
            (\<exists>i pre post. cat_id ob = Some i \<and> i = pre @ ''state/com.google/read'' @ post))"
proof -
  have ident: "str_in read_state (category_ident c) \<longleftrightarrow>
      (case c of
          CatStr s \<Rightarrow> (\<exists>pre post. s = pre @ ''state/com.google/read'' @ post)
        | CatObj ob \<Rightarrow>
            (\<exists>i pre post. cat_id ob = Some i \<and> i = pre @ ''state/com.google/read'' @ post))" for c
    by (cases c) (auto simp: str_in_iff get_or_def read_state_def split: option.splits)
  show ?thesis
    unfolding parse_article_is_read_eq [OF assms] py_any_iff
    using ident by auto
qed

theorem parse_article_is_read_witness:
  "(\<exists>a. parse_article (\<lambda>_. 0)
       \<lparr> item_id = Some ''tag:google.com,2005:reader/item/123'', item_title = Some ''Test Article'',
         item_published = None, item_author = None, item_origin = None,
         item_categories =
           Some [CatObj \<lparr>cat_id = Some ''user/-/state/com.google/read'', cat_label = Some ''Read''\<rparr>],
         item_alternate = None, item_summary = None, item_content = None \<rparr> = Inr a \<and> art_is_read a)
   \<and> (\<exists>a. parse_article (\<lambda>_. 0)
       \<lparr> item_id = Some ''tag:google.com,2005:reader/item/123'', item_title = Some ''Test Article'',
         item_published = None, item_author = None, item_origin = None,
         item_categories = Some [CatObj \<lparr>cat_id = None, cat_label = Some ''Read''\<rparr>, CatStr ''Read''],
         item_alternate = None, item_summary = None, item_content = None \<rparr> = Inr a \<and> \<not> art_is_read a)"
proof -
  let ?i1 = "\<lparr> item_id = Some ''tag:google.com,2005:reader/item/123'', item_title = Some ''Test Article'',
         item_published = None, item_author = None, item_origin = None,
         item_categories =
           Some [CatObj \<lparr>cat_id = Some ''user/-/state/com.google/read'', cat_label = Some ''Read''\<rparr>],
         item_alternate = None, item_summary = None, item_content = None \<rparr>"
  let ?i2 = "\<lparr> item_id = Some ''tag:google.com,2005:reader/item/123'', item_title = Some ''Test Article'',
         item_published = None, item_author = None, item_origin = None,
         item_categories = Some [CatObj \<lparr>cat_id = None, cat_label = Some ''Read''\<rparr>, CatStr ''Read''],
         item_alternate = None, item_summary = None, item_content = None \<rparr>"
  obtain a1 where a1: "parse_article (\<lambda>_. 0) ?i1 = Inr a1"
    by (simp add: parse_article_def published_date_of_def)
  obtain a2 where a2: "parse_article (\<lambda>_. 0) ?i2 = Inr a2"
    by (simp add: parse_article_def published_date_of_def)
  have "\<exists>pre post. ''user/-/state/com.google/read'' = pre @ ''state/com.google/read'' @ post"
    by (rule exI [of _ "''user/-/''"], rule exI [of _ "[]"]) simp
  then have r1: "art_is_read a1"
    unfolding parse_article_is_read [OF a1] by (simp add: get_or_def)
  have "\<not> (\<exists>pre post. ''Read'' = pre @ ''state/com.google/read'' @ post)"
  proof
    assume "\<exists>pre post. ''Read'' = pre @ ''state/com.google/read'' @ post"
    then obtain pre post where "''Read'' = pre @ ''state/com.google/read'' @ post" by blast
    then have "length ''Read'' = length (pre @ ''state/com.google/read'' @ post)" by (rule arg_cong)
    then show False by simp
  qed
  then have r2: "\<not> art_is_read a2"
    unfolding parse_article_is_read [OF a2] by (simp add: get_or_def)
  from a1 r1 a2 r2 show ?thesis by blast
qed

subsection \<open>Summary truncation\<close>




subsection \<open>Categories of a subscription\<close>

lemma feed_category_labels_Inr:
  "(\<exists>ls. feed_category_labels cs = Inr ls) \<longleftrightarrow> (\<forall>c \<in> set cs. \<exists>ob. c = CatObj ob)"
  by (induction cs rule: feed_category_labels.induct) (auto split: sum.splits)

lemma parse_feed_Inr:
  "(\<exists>f. parse_feed sub = Inr f) \<longleftrightarrow>
     (\<exists>ls. feed_category_labels (get_or (sub_categories sub) []) = Inr ls)"
  by (auto simp: parse_feed_def split: sum.splits)

lemma iso_example: "fromtimestamp_isoformat (\<lambda>_. 0) 1700000000 = Inr ''2023-11-14T22:13:20''"
  by code_simp

lemma parse_article_isl:
  "isl (parse_article tz it) = isl (published_date_of tz (item_published it))"
  by (auto simp: parse_article_def split: sum.splits)

lemma parse_article_categories:
  "published_date_of tz (item_published it) = Inr pd \<Longrightarrow>
   \<exists>a. parse_article tz it = Inr a \<and> art_published_date a = pd \<and>
       art_categories a = map category_label (get_or (item_categories it) [])"
  by (simp add: parse_article_def)

text \<open>
  C10. \<open>parse_feed\<close> returns a record exactly when every entry of the subscription's
  categories list is an object; a subscription with a plain-string category entry makes
  it raise. \<open>parse_article\<close> is different. Whether it returns does not depend on the
  categories of the item at all: it returns exactly when the conversion of the published
  timestamp returns, and always when the item has no published timestamp or the
  timestamp 0. The categories of the article it returns are then the string entries
  themselves and the labels of the object entries (the empty string for an object without
  a label), in order.
\<close>

theorem parse_feed_string_category:
  "((\<exists>f. parse_feed sub = Inr f) \<longleftrightarrow>
       (\<forall>c \<in> set (get_or (sub_categories sub) []). \<exists>ob. c = CatObj ob))
   \<and> (CatStr s \<in> set (get_or (sub_categories sub) []) \<longrightarrow> (\<exists>e. parse_feed sub = Inl e))
   \<and> isl (parse_article tz (it\<lparr>item_categories := cats\<rparr>)) = isl (parse_article tz it)
   \<and> ((\<exists>a. parse_article tz (it\<lparr>item_categories := cats\<rparr>) = Inr a) \<longleftrightarrow>
        (\<exists>pd. published_date_of tz (item_published it) = Inr pd))
   \<and> (published_date_of tz (item_published it) = Inr pd \<longrightarrow>
        (\<exists>a. parse_article tz (it\<lparr>item_categories := cats\<rparr>) = Inr a \<and>
             art_categories a = map category_label (get_or cats [])))
   \<and> (\<exists>a. parse_article tz (it\<lparr>item_published := None, item_categories := cats\<rparr>) = Inr a \<and>
           art_categories a = map category_label (get_or cats []))
   \<and> (\<exists>a. parse_article tz (it\<lparr>item_published := Some 0, item_categories := cats\<rparr>) = Inr a \<and>
           art_categories a = map category_label (get_or cats []))
   \<and> category_label (CatStr s) = s
   \<and> category_label (CatObj ob) = get_or (cat_label ob) ''''"
proof -
  have a: "(\<exists>f. parse_feed sub = Inr f) \<longleftrightarrow>
       (\<forall>c \<in> set (get_or (sub_categories sub) []). \<exists>ob. c = CatObj ob)"
    by (simp only: parse_feed_Inr feed_category_labels_Inr)
  have b: "\<exists>e. parse_feed sub = Inl e" if "CatStr s \<in> set (get_or (sub_categories sub) [])"
  proof (cases "parse_feed sub")
    case (Inl e)
    then show ?thesis by blast
  next
    case (Inr f)
    with a that show ?thesis by auto
  qed
  have c: "isl (parse_article tz (it\<lparr>item_categories := cats\<rparr>)) = isl (parse_article tz it)"
    by (simp add: parse_article_isl)
  have d: "(\<exists>a. parse_article tz (it\<lparr>item_categories := cats\<rparr>) = Inr a) \<longleftrightarrow>
        (\<exists>pd. published_date_of tz (item_published it) = Inr pd)"
    by (auto simp: parse_article_def split: sum.splits)
  have e: "\<exists>a. parse_article tz (it\<lparr>item_categories := cats\<rparr>) = Inr a \<and>
             art_categories a = map category_label (get_or cats [])"
    if "published_date_of tz (item_published it) = Inr pd"
    using parse_article_categories [of tz "it\<lparr>item_categories := cats\<rparr>" pd] that by auto
  have f: "\<exists>a. parse_article tz (it\<lparr>item_published := None, item_categories := cats\<rparr>) = Inr a \<and>
           art_categories a = map category_label (get_or cats [])"
    using parse_article_categories
      [of tz "it\<lparr>item_published := None, item_categories := cats\<rparr>" None]
    by (auto simp: published_date_of_def)
  have g: "\<exists>a. parse_article tz (it\<lparr>item_published := Some 0, item_categories := cats\<rparr>) = Inr a \<and>
           art_categories a = map category_label (get_or cats [])"
    using parse_article_categories
      [of tz "it\<lparr>item_published := Some 0, item_categories := cats\<rparr>" None]
    by (auto simp: published_date_of_def)
  have h: "category_label (CatStr s) = s" "category_label (CatObj ob) = get_or (cat_label ob) ''''"
    by simp_all
  from a b c d e f g h show ?thesis by blast
qed

theorem parse_feed_string_category_witness:
  "(\<exists>e. parse_feed \<lparr> sub_id = Some ''feed/123'', sub_title = Some ''Test Feed'',
        sub_url = None, sub_htmlUrl = None,
        sub_categories = Some [CatObj \<lparr>cat_id = None, cat_label = Some ''Tech''\<rparr>, CatStr ''News''],
        sub_firstitemmsec = None \<rparr> = Inl e)
   \<and> (\<exists>f. parse_feed \<lparr> sub_id = Some ''feed/123'', sub_title = Some ''Test Feed'',
        sub_url = None, sub_htmlUrl = None,
        sub_categories = Some [CatObj \<lparr>cat_id = None, cat_label = Some ''Tech''\<rparr>],
        sub_firstitemmsec = None \<rparr> = Inr f)
   \<and> (\<exists>a. parse_article (\<lambda>_. 0)
          \<lparr> item_id = Some ''item1'', item_title = Some ''Test Article'',
            item_published = Some 1700000000, item_author = None, item_origin = None,
            item_categories = Some [CatObj \<lparr>cat_id = None, cat_label = Some ''Tech''\<rparr>, CatStr ''News''],
            item_alternate = None, item_summary = None, item_content = None \<rparr> = Inr a
        \<and> art_categories a = [''Tech'', ''News''])"
proof -
  let ?s1 = "\<lparr> sub_id = Some ''feed/123'', sub_title = Some ''Test Feed'',
        sub_url = None, sub_htmlUrl = None,
        sub_categories = Some [CatObj \<lparr>cat_id = None, cat_label = Some ''Tech''\<rparr>, CatStr ''News''],
        sub_firstitemmsec = None \<rparr>"
  let ?s2 = "\<lparr> sub_id = Some ''feed/123'', sub_title = Some ''Test Feed'',
        sub_url = None, sub_htmlUrl = None,
        sub_categories = Some [CatObj \<lparr>cat_id = None, cat_label = Some ''Tech''\<rparr>],
        sub_firstitemmsec = None \<rparr>"
  let ?it = "\<lparr> item_id = Some ''item1'', item_title = Some ''Test Article'',
            item_published = Some 1700000000, item_author = None, item_origin = None,
            item_categories = None,
            item_alternate = None, item_summary = None, item_content = None \<rparr>"
  have pd: "published_date_of (\<lambda>_. 0) (Some 1700000000) = Inr (Some ''2023-11-14T22:13:20'')"
    by (simp add: published_date_of_def get_or_def iso_example)
  have "\<exists>e. parse_feed ?s1 = Inl e"
    using parse_feed_string_category [of ?s1 "''News''"] by (simp add: get_or_def)
  moreover have "\<exists>f. parse_feed ?s2 = Inr f"
    using parse_feed_string_category [of ?s2] by (simp add: get_or_def)
  moreover have "\<exists>a. parse_article (\<lambda>_. 0)
          \<lparr> item_id = Some ''item1'', item_title = Some ''Test Article'',
            item_published = Some 1700000000, item_author = None, item_origin = None,
            item_categories = Some [CatObj \<lparr>cat_id = None, cat_label = Some ''Tech''\<rparr>, CatStr ''News''],
            item_alternate = None, item_summary = None, item_content = None \<rparr> = Inr a
        \<and> art_categories a = [''Tech'', ''News'']"
    using parse_feed_string_category [where tz = "\<lambda>_. 0" and it = ?it
        and cats = "Some [CatObj \<lparr>cat_id = None, cat_label = Some ''Tech''\<rparr>, CatStr ''News'']"
        and pd = "Some ''2023-11-14T22:13:20''"] pd
    by (simp add: get_or_def)
  ultimately show ?thesis by blast
qed

subsection \<open>published_date and url\<close>

lemma alternate_url_find:
  "alternate_url alts u =
     (case find (\<lambda>alt. alt_type alt = Some ''text/html'') alts of
        None \<Rightarrow> u
      | Some alt \<Rightarrow> alt_href alt)"
  by (induction alts) auto

lemma parse_article_fields:
  "parse_article tz it = Inr a \<Longrightarrow>
     published_date_of tz (item_published it) = Inr (art_published_date a) \<and>
     art_url a = (case item_alternate it of None \<Rightarrow> None | Some alts \<Rightarrow> alternate_url alts None)"
  by (auto simp: parse_article_def split: sum.splits)

text \<open>
  C9, as the code has it. Whenever \<open>parse_article\<close> returns an article, its
  \<open>published_date\<close> is the ISO rendering of the published timestamp when the item
  carries a non-zero one and \<^verbatim>\<open>None\<close> otherwise, and its \<open>url\<close> is the \<^verbatim>\<open>href\<close> of
  the first alternate link of type \<^verbatim>\<open>text/html\<close> (\<^verbatim>\<open>None\<close> when that link has no
  \<^verbatim>\<open>href\<close>) and \<^verbatim>\<open>None\<close> when there is no such link. The absent value is
  \<^verbatim>\<open>None\<close>, not the empty string.
\<close>

theorem parse_article_date_url:
  assumes "parse_article tz it = Inr a"
  shows "(case item_published it of
            None \<Rightarrow> art_published_date a = None
          | Some t \<Rightarrow>
              if t = 0 then art_published_date a = None
              else (\<exists>s. fromtimestamp_isoformat tz t = Inr s \<and> art_published_date a = Some s))
       \<and> art_url a =
           (case find (\<lambda>alt. alt_type alt = Some ''text/html'') (get_or (item_alternate it) []) of
              None \<Rightarrow> None
            | Some alt \<Rightarrow> alt_href alt)"
proof -
  from parse_article_fields [OF assms]
  have d: "published_date_of tz (item_published it) = Inr (art_published_date a)"
    and u: "art_url a = (case item_alternate it of None \<Rightarrow> None | Some alts \<Rightarrow> alternate_url alts None)"
    by simp_all
  have "case item_published it of
            None \<Rightarrow> art_published_date a = None
          | Some t \<Rightarrow>
              if t = 0 then art_published_date a = None
              else (\<exists>s. fromtimestamp_isoformat tz t = Inr s \<and> art_published_date a = Some s)"
    using d by (auto simp: published_date_of_def get_or_def split: option.splits sum.splits if_splits)
  moreover have "art_url a =
           (case find (\<lambda>alt. alt_type alt = Some ''text/html'') (get_or (item_alternate it) []) of
              None \<Rightarrow> None
            | Some alt \<Rightarrow> alt_href alt)"
    unfolding u by (simp add: alternate_url_find get_or_def split: option.splits)
  ultimately show ?thesis by blast
qed

theorem parse_article_date_url_witness:
  "\<exists>a. parse_article (\<lambda>_. 0)
     \<lparr> item_id = Some ''1'', item_title = Some ''T'', item_published = Some 1700000000,
       item_author = None, item_origin = None, item_categories = None,
       item_alternate =
         Some [\<lparr>alt_type = Some ''application/pdf'', alt_href = Some ''https://example.com/a.pdf''\<rparr>,
               \<lparr>alt_type = Some ''text/html'', alt_href = Some ''https://example.com''\<rparr>],
       item_summary = None, item_content = None \<rparr> = Inr a
     \<and> art_published_date a = Some ''2023-11-14T22:13:20''
     \<and> art_url a = Some ''https://example.com''"
proof -
  let ?it = "\<lparr> item_id = Some ''1'', item_title = Some ''T'', item_published = Some 1700000000,
       item_author = None, item_origin = None, item_categories = None,
       item_alternate =
         Some [\<lparr>alt_type = Some ''application/pdf'', alt_href = Some ''https://example.com/a.pdf''\<rparr>,
               \<lparr>alt_type = Some ''text/html'', alt_href = Some ''https://example.com''\<rparr>],
       item_summary = None, item_content = None \<rparr>"
  obtain a where a: "parse_article (\<lambda>_. 0) ?it = Inr a"
    by (simp add: parse_article_def published_date_of_def get_or_def iso_example)
  from parse_article_date_url [OF a]
  have "art_published_date a = Some ''2023-11-14T22:13:20'' \<and> art_url a = Some ''https://example.com''"
    by (simp add: iso_example get_or_def)
  with a show ?thesis by blast
qed

text \<open>
  The claim as stated fails on an item with no published timestamp and no
  \<^verbatim>\<open>text/html\<close> link: both fields are \<^verbatim>\<open>None\<close>.
\<close>

theorem parse_article_date_url_counterexample:
  "parse_article (\<lambda>_. 0)
     \<lparr> item_id = Some ''1'', item_title = Some ''T'', item_published = None, item_author = None,
       item_origin = None, item_categories = None,
       item_alternate =
         Some [\<lparr>alt_type = Some ''application/pdf'', alt_href = Some ''https://example.com/a.pdf''\<rparr>],
       item_summary = None, item_content = None \<rparr>
   = Inr \<lparr> art_id = ''1'', art_title = ''T'', art_published = 0, art_published_date = None,
           art_author = ''Unknown'', art_feed_title = ''Unknown feed'', art_feed_id = '''',
           art_categories = [], art_is_read = False, art_url = None, art_summary = None \<rparr>"
  by (simp add: parse_article_def published_date_of_def get_or_def)

section \<open>Properties of the client\<close>

subsection \<open>The request layer and the example inputs\<close>

lemma request_text:
  "pending w = Responds resp # rest \<Longrightarrow> resp_status resp = 200 \<Longrightarrow>
   \<not> str_in ''application/json'' (get_or (resp_content_type resp) '''') \<Longrightarrow>
   fst (request cfg m ep ps d w) = Inr (Text (resp_text resp))"
  by (simp add: request_def send_def)

lemma request_json:
  "pending w = Responds resp # rest \<Longrightarrow> resp_status resp = 200 \<Longrightarrow>
   str_in ''application/json'' (get_or (resp_content_type resp) '''') \<Longrightarrow>
   fst (request cfg m ep ps d w) = resp_json resp"
  by (simp add: request_def send_def split: sum.splits)

lemma request_sent:
  "sent (snd (request cfg m ep ps d w)) =
     sent w @ [\<lparr> req_method = m, req_url = base_url cfg @ ''/'' @ ep, req_params = ps,
                 req_data = d, req_headers = get_headers cfg w \<rparr>]"
  by (simp add: request_def send_def split: list.splits outcome.splits sum.splits)

lemma request_raises_iff:
  "fst (request cfg m ep ps d w) = Inl e \<longleftrightarrow> request_raises (pending w) = Some e"
  by (auto simp: request_def send_def request_raises_def
        split: list.splits outcome.splits sum.splits if_splits)

lemma text_response_simps:
  "resp_status (text_response st t) = st"
  "resp_text (text_response st t) = t"
  "str_in ''application/json'' (get_or (resp_content_type (text_response st t)) '''') = False"
  by (simp_all add: text_response_def get_or_def startswith_def)

lemma json_response_simps:
  "resp_status (json_response j) = 200"
  "resp_json (json_response j) = Inr (Json j)"
  "str_in ''application/json'' (get_or (resp_content_type (json_response j)) '''') = True"
  by (simp_all add: json_response_def get_or_def startswith_def)

lemma fresh_world_simps:
  "pending (fresh_world os) = os"
  "sent (fresh_world os) = []"
  "opened (fresh_world os) = 0"
  "closed (fresh_world os) = 0"
  by (simp_all add: fresh_world_def)

subsection \<open>Marking items read\<close>

text \<open>
  C4, as the code has it. \<open>mark_as_read\<close> of the client returns success for an empty id
  list and leaves the state as it is: no request is sent. For a non-empty list it sends
  one POST to \<^verbatim>\<open>edit-tag\<close> with the ids and the read-state tag. It returns \<^verbatim>\<open>True\<close>
  exactly when the response has status 200 and the value the request layer yields is the
  string \<^verbatim>\<open>OK\<close>: a body without a JSON content type that is exactly \<^verbatim>\<open>OK\<close>, or a JSON
  body that decodes to the string \<^verbatim>\<open>OK\<close>. It returns \<^verbatim>\<open>False\<close> exactly when the response
  has status 200 and yields any other value, and it raises exactly when the request layer
  raises (a status other than 200, a JSON body that does not decode, a transport failure).
\<close>

theorem client_mark_as_read_ok:
  "client_mark_as_read cfg [] w = (Inr True, w)
   \<and> (ids \<noteq> [] \<longrightarrow>
        sent (snd (client_mark_as_read cfg ids w)) =
          sent w @ [\<lparr> req_method = ''POST'', req_url = base_url cfg @ ''/edit-tag'',
                      req_params = None,
                      req_data = Some [(''i'', PStrs ids), (''a'', PStr ''user/-/state/com.google/read'')],
                      req_headers = get_headers cfg w \<rparr>]
        \<and> (fst (client_mark_as_read cfg ids w) = Inr True \<longleftrightarrow>
              (\<exists>resp rest. pending w = Responds resp # rest \<and> resp_status resp = 200 \<and>
                 (if str_in ''application/json'' (get_or (resp_content_type resp) '''')
                  then resp_json resp = Inr (Text ''OK'')
                  else resp_text resp = ''OK'')))
        \<and> (fst (client_mark_as_read cfg ids w) = Inr False \<longleftrightarrow>
              (\<exists>resp rest. pending w = Responds resp # rest \<and> resp_status resp = 200 \<and>
                 (if str_in ''application/json'' (get_or (resp_content_type resp) '''')
                  then \<exists>v. resp_json resp = Inr v \<and> v \<noteq> Text ''OK''
                  else resp_text resp \<noteq> ''OK'')))
        \<and> (fst (client_mark_as_read cfg ids w) = Inl e \<longleftrightarrow>
              request_raises (pending w) = Some e))"
proof -
  have e: "client_mark_as_read cfg [] w = (Inr True, w)"
    by (simp add: client_mark_as_read_def)
  let ?d = "Some [(''i'', PStrs ids), (''a'', PStr ''user/-/state/com.google/read'')]"
  let ?rq = "request cfg ''POST'' ''edit-tag'' None ?d w"
  have unf: "client_mark_as_read cfg ids w =
       (case ?rq of (Inl e, w1) \<Rightarrow> (Inl e, w1) | (Inr result, w1) \<Rightarrow> (Inr (result = Text ''OK''), w1))"
    if "ids \<noteq> []"
    using that by (simp add: client_mark_as_read_def)
  have s: "sent (snd (client_mark_as_read cfg ids w)) =
          sent w @ [\<lparr> req_method = ''POST'', req_url = base_url cfg @ ''/edit-tag'',
                      req_params = None, req_data = ?d, req_headers = get_headers cfg w \<rparr>]"
    if "ids \<noteq> []"
    using request_sent [of cfg "''POST''" "''edit-tag''" None ?d w]
    by (auto simp: unf [OF that] split: prod.splits sum.splits)
  have t: "fst (client_mark_as_read cfg ids w) = Inr True \<longleftrightarrow>
              (\<exists>resp rest. pending w = Responds resp # rest \<and> resp_status resp = 200 \<and>
                 (if str_in ''application/json'' (get_or (resp_content_type resp) '''')
                  then resp_json resp = Inr (Text ''OK'')
                  else resp_text resp = ''OK''))" if "ids \<noteq> []"
    using that
    by (auto simp: client_mark_as_read_def request_def send_def
             split: list.splits outcome.splits sum.splits if_splits)
  have f: "fst (client_mark_as_read cfg ids w) = Inr False \<longleftrightarrow>
              (\<exists>resp rest. pending w = Responds resp # rest \<and> resp_status resp = 200 \<and>
                 (if str_in ''application/json'' (get_or (resp_content_type resp) '''')
                  then \<exists>v. resp_json resp = Inr v \<and> v \<noteq> Text ''OK''
                  else resp_text resp \<noteq> ''OK''))" if "ids \<noteq> []"
    using that
    by (auto simp: client_mark_as_read_def request_def send_def
             split: list.splits outcome.splits sum.splits if_splits)
  have r: "fst (client_mark_as_read cfg ids w) = Inl e \<longleftrightarrow> request_raises (pending w) = Some e"
    if "ids \<noteq> []"
    using request_raises_iff [of cfg "''POST''" "''edit-tag''" None ?d w e]
    by (auto simp: unf [OF that] split: prod.splits sum.splits)
  from e s t f r show ?thesis by blast
qed

theorem client_mark_as_read_ok_witness:
  "client_mark_as_read example_config [] (fresh_world []) = (Inr True, fresh_world [])
   \<and> fst (client_mark_as_read example_config [''item1'', ''item2'']
            (fresh_world [Responds (text_response 200 ''OK'')])) = Inr True
   \<and> fst (client_mark_as_read example_config [''item1'', ''item2'']
            (fresh_world [Responds (text_response 200 ''Error'')])) = Inr False
   \<and> fst (client_mark_as_read example_config [''item1'', ''item2'']
            (fresh_world [Responds (json_response empty_items)])) = Inr False
   \<and> fst (client_mark_as_read example_config [''item1'', ''item2'']
            (fresh_world [Responds (text_response 500 ''OK'')])) =
         Inl (PyExc Exception ''API request failed: 500 - OK'')"
proof -
  have a: "client_mark_as_read example_config [] (fresh_world []) = (Inr True, fresh_world [])"
    using client_mark_as_read_ok [of example_config "fresh_world []" "[]"] by simp
  have b: "fst (client_mark_as_read example_config [''item1'', ''item2'']
            (fresh_world [Responds (text_response 200 ''OK'')])) = Inr True"
    using client_mark_as_read_ok [of example_config "fresh_world [Responds (text_response 200 ''OK'')]"
        "[''item1'', ''item2'']"]
    by (simp add: fresh_world_simps text_response_simps)
  have c: "fst (client_mark_as_read example_config [''item1'', ''item2'']
            (fresh_world [Responds (text_response 200 ''Error'')])) = Inr False"
    using client_mark_as_read_ok [of example_config "fresh_world [Responds (text_response 200 ''Error'')]"
        "[''item1'', ''item2'']"]
    by (simp add: fresh_world_simps text_response_simps)
  have d: "fst (client_mark_as_read example_config [''item1'', ''item2'']
            (fresh_world [Responds (json_response empty_items)])) = Inr False"
    using client_mark_as_read_ok [of example_config "fresh_world [Responds (json_response empty_items)]"
        "[''item1'', ''item2'']"]
    by (simp add: fresh_world_simps json_response_simps)
  have rr: "request_raises [Responds (text_response 500 ''OK'')] =
      Some (PyExc Exception ''API request failed: 500 - OK'')"
    by code_simp
  have f: "fst (client_mark_as_read example_config [''item1'', ''item2'']
            (fresh_world [Responds (text_response 500 ''OK'')])) =
         Inl (PyExc Exception ''API request failed: 500 - OK'')"
    using client_mark_as_read_ok [of example_config "fresh_world [Responds (text_response 500 ''OK'')]"
        "[''item1'', ''item2'']" "PyExc Exception ''API request failed: 500 - OK''"]
    by (simp add: fresh_world_simps rr)
  from a b c d f show ?thesis by blast
qed

text \<open>
  The claim as stated fails on a response of status 200 with a JSON content type whose
  body is the four characters of the JSON string \<^verbatim>\<open>"OK"\<close>: the body is not exactly
  \<^verbatim>\<open>OK\<close>, it decodes to the string \<^verbatim>\<open>OK\<close>, and the call returns \<^verbatim>\<open>True\<close>. It also fails
  on a response of status 500 whose body is exactly \<^verbatim>\<open>OK\<close>: the call raises.
\<close>

theorem client_mark_as_read_ok_counterexample:
  "fst (client_mark_as_read example_config [''item1'']
         (fresh_world [Responds
            \<lparr> resp_status = 200, resp_content_type = Some ''application/json'',
              resp_text = [CHR 0x22, CHR ''O'', CHR ''K'', CHR 0x22],
              resp_json = Inr (Text ''OK'') \<rparr>])) = Inr True
   \<and> [CHR 0x22, CHR ''O'', CHR ''K'', CHR 0x22] \<noteq> ''OK''
   \<and> fst (client_mark_as_read example_config [''item1'']
         (fresh_world [Responds
            \<lparr> resp_status = 500, resp_content_type = Some ''text/plain'', resp_text = ''OK'',
              resp_json = Inl (PyExc JSONDecodeError ''Expecting value: line 1 column 1 (char 0)'') \<rparr>])) =
       Inl (PyExc Exception ''API request failed: 500 - OK'')"
  by code_simp

subsection \<open>Raw text in place of a stream\<close>

text \<open>
  C5. When the request layer yields raw text (status 200, no JSON content type),
  \<open>get_stream_contents\<close> and \<open>search\<close> both return the object whose item list is
  empty; when it yields a decoded JSON object, both return that object unchanged, and so
  they do with a decoded value of another type that is not a string.
\<close>

theorem stream_text_fallback:
  assumes "pending w = Responds resp # rest" and "resp_status resp = 200"
  shows "(\<not> str_in ''application/json'' (get_or (resp_content_type resp) '''') \<longrightarrow>
            fst (get_stream_contents cfg sid n x nt w) = Inr (Json empty_items)
          \<and> fst (search cfg q k nt' w) = Inr (Json empty_items)
          \<and> items empty_items = Some [])
       \<and> (str_in ''application/json'' (get_or (resp_content_type resp) '''') \<and>
          resp_json resp = Inr (Json j) \<longrightarrow>
            fst (get_stream_contents cfg sid n x nt w) = Inr (Json j)
          \<and> fst (search cfg q k nt' w) = Inr (Json j))
       \<and> (str_in ''application/json'' (get_or (resp_content_type resp) '''') \<and>
          resp_json resp = Inr (Other kind) \<longrightarrow>
            fst (get_stream_contents cfg sid n x nt w) = Inr (Other kind)
          \<and> fst (search cfg q k nt' w) = Inr (Other kind))"
  using assms
  by (simp add: get_stream_contents_def search_def request_def send_def empty_items_def Let_def)

theorem stream_text_fallback_witness:
  "fst (get_stream_contents example_config None 20 True None
          (fresh_world [Responds (text_response 200 '''')])) = Inr (Json empty_items)
   \<and> fst (search example_config ''isabelle'' 50 None
          (fresh_world [Responds (text_response 200 '''')])) = Inr (Json empty_items)
   \<and> fst (get_stream_contents example_config None 20 True None
          (fresh_world [Responds (json_response \<lparr>subscriptions = None, items = None, unreadcounts = None\<rparr>)]))
       = Inr (Json \<lparr>subscriptions = None, items = None, unreadcounts = None\<rparr>)
   \<and> fst (search example_config ''isabelle'' 50 None
          (fresh_world [Responds (json_response \<lparr>subscriptions = None, items = None, unreadcounts = None\<rparr>)]))
       = Inr (Json \<lparr>subscriptions = None, items = None, unreadcounts = None\<rparr>)"
proof -
  let ?j = "\<lparr>subscriptions = None, items = None, unreadcounts = None\<rparr>"
  have a: "fst (get_stream_contents example_config None 20 True None
          (fresh_world [Responds (text_response 200 '''')])) = Inr (Json empty_items)
   \<and> fst (search example_config ''isabelle'' 50 None
          (fresh_world [Responds (text_response 200 '''')])) = Inr (Json empty_items)"
    using stream_text_fallback [of "fresh_world [Responds (text_response 200 '''')]"
        "text_response 200 ''''" "[]" example_config None 20 True None "''isabelle''" 50 None ?j]
    by (simp add: fresh_world_simps text_response_simps)
  have b: "fst (get_stream_contents example_config None 20 True None
          (fresh_world [Responds (json_response ?j)])) = Inr (Json ?j)
   \<and> fst (search example_config ''isabelle'' 50 None
          (fresh_world [Responds (json_response ?j)])) = Inr (Json ?j)"
    using stream_text_fallback [of "fresh_world [Responds (json_response ?j)]"
        "json_response ?j" "[]" example_config None 20 True None "''isabelle''" 50 None ?j]
    by (simp add: fresh_world_simps json_response_simps)
  from a b show ?thesis by blast
qed

section \<open>Properties of the tool operations\<close>

subsection \<open>Chunks\<close>









subsection \<open>The loop over the chunks\<close>








subsection \<open>Entering the session\<close>

lemma authenticate_ok:
  assumes "pending w = Responds r # os" and "resp_status r = 200"
    and "find (\<lambda>line. startswith line ''Auth='') (split_str nl (resp_text r)) = Some line"
    and "drop 5 line \<noteq> []"
  shows "authenticate cfg w =
           (Inr (), w\<lparr>pending := os, sent := sent w @ [auth_request cfg],
                     auth_token := Some (drop 5 line)\<rparr>)"
  using assms by (simp add: authenticate_def send_def truthy_def)


subsection \<open>mark_as_read in batches\<close>









subsection \<open>The handler of the tools\<close>

lemma guarded_recovers: "one_line prefix \<Longrightarrow> recovers prefix body (guarded prefix body) w"
  by (auto simp: recovers_def guarded_def one_line_def split: prod.splits sum.splits)

lemma one_line_prefixes:
  "one_line ''Error listing feeds: ''"
  "one_line ''Error listing articles: ''"
  "one_line ''Error searching articles: ''"
  "one_line ''Error getting article content: ''"
  "one_line ''Error marking articles as read: ''"
  "one_line ''Error getting stats: ''"
  by (simp_all add: one_line_def)

text \<open>
  C2, as the code has it. Each of the six tools returns a text in every state: what its
  body returns, or, when anything below it raises, its prefix followed by the text of
  the exception. That text is taken as it is, so the message is one line exactly when
  the text of the exception is.
\<close>

theorem tools_recover:
  "recovers ''Error listing feeds: '' (with_client cfg (list_feeds_body cfg)) (list_feeds cfg) w
   \<and> recovers ''Error listing articles: ''
        (with_client cfg (list_articles_body cfg pf limit days feed_id unread_only))
        (list_articles cfg pf limit days feed_id unread_only) w
   \<and> recovers ''Error searching articles: ''
        (with_client cfg (search_articles_body cfg pf query limit' days'))
        (search_articles cfg pf query limit' days') w
   \<and> recovers ''Error getting article content: ''
        (with_client cfg (get_content_body cfg pf article_id))
        (get_content cfg pf article_id) w
   \<and> recovers ''Error marking articles as read: ''
        (\<lambda>w. if article_ids = [] then (Inr ''No article IDs provided.'', w)
             else with_client cfg (mark_as_read_body cfg article_ids) w)
        (mark_as_read cfg article_ids) w
   \<and> recovers ''Error getting stats: '' (with_client cfg (get_stats_body cfg)) (get_stats cfg) w"
  unfolding list_feeds_def list_articles_def search_articles_def get_content_def mark_as_read_def
    get_stats_def
  by (intro conjI guarded_recovers one_line_prefixes)

lemma get_stats_body_fails_example:
  "with_client example_config (get_stats_body example_config)
     (fresh_world [auth_ok, Responds (text_response 500 ''Internal Server Error'')]) =
   (Inl (PyExc Exception ''API request failed: 500 - Internal Server Error''),
    \<lparr> pending = [], sent = [auth_request example_config,
          \<lparr> req_method = ''GET'', req_url = ''https://www.inoreader.com/reader/api/0/unread-count'',
            req_params = None, req_data = None,
            req_headers = [(''Authorization'', ''GoogleLogin auth=G2UlCa''), (''AppId'', ''1000''),
                           (''AppKey'', ''key'')] \<rparr>],
      opened = 1, closed = 1, auth_token = Some ''G2UlCa'', cache = [] \<rparr>)"
  by code_simp

theorem tools_recover_witness:
  "fst (get_stats example_config
         (fresh_world [auth_ok, Responds (text_response 500 ''Internal Server Error'')])) =
     ''Error getting stats: API request failed: 500 - Internal Server Error''
   \<and> one_line (fst (get_stats example_config
         (fresh_world [auth_ok, Responds (text_response 500 ''Internal Server Error'')])))"
proof -
  let ?w = "fresh_world [auth_ok, Responds (text_response 500 ''Internal Server Error'')]"
  from tools_recover [where cfg = example_config and w = ?w]
  have "recovers ''Error getting stats: '' (with_client example_config (get_stats_body example_config))
          (get_stats example_config) ?w"
    by blast
  then show ?thesis
    unfolding recovers_def get_stats_body_fails_example
    by (simp add: one_line_def)
qed

text \<open>
  The claim as stated fails where the detail has a line break, as the body of an HTTP
  error response can: the message returned has two lines.
\<close>

theorem tools_recover_counterexample:
  "fst (get_stats example_config
         (fresh_world [auth_ok, Responds (text_response 500 (''Bad'' @ [CHR 0x0A] @ ''Gateway''))])) =
     ''Error getting stats: API request failed: 500 - Bad'' @ [CHR 0x0A] @ ''Gateway''
   \<and> \<not> one_line (fst (get_stats example_config
         (fresh_world [auth_ok, Responds (text_response 500 (''Bad'' @ [CHR 0x0A] @ ''Gateway''))])))"
  by code_simp

subsection \<open>The session scope\<close>

lemma authenticate_sessions:
  "opened (snd (authenticate cfg w)) = opened w \<and> closed (snd (authenticate cfg w)) = closed w"
  by (simp add: authenticate_def send_def Let_def
        split: list.splits outcome.splits option.splits)

lemma with_client_released:
  "authenticate cfg (open_session (new_client w)) = (Inr (), w2) \<Longrightarrow>
   closed (snd (with_client cfg body w)) = closed (snd (body w2)) + 1"
  by (simp add: with_client_def aexit_def split: prod.splits)

lemma with_client_not_released:
  assumes "fst (authenticate cfg (open_session (new_client w))) = Inl e"
  shows "fst (with_client cfg body w) = Inl e
       \<and> opened (snd (with_client cfg body w)) = opened w + 1
       \<and> closed (snd (with_client cfg body w)) = closed w"
proof -
  obtain w2 where a: "authenticate cfg (open_session (new_client w)) = (Inl e, w2)"
    using assms by (cases "authenticate cfg (open_session (new_client w))") simp
  have "with_client cfg body w = (Inl e, w2)"
    by (simp add: with_client_def a)
  moreover have "opened w2 = opened (open_session (new_client w))
      \<and> closed w2 = closed (open_session (new_client w))"
    using authenticate_sessions [of cfg "open_session (new_client w)"] by (simp add: a)
  then have "opened w2 = opened w + 1 \<and> closed w2 = closed w"
    by (simp add: open_session_def new_client_def)
  ultimately show ?thesis by simp
qed


text \<open>
  C7. When authentication fails (a status other than 200, or no token line), the session
  that \<^verbatim>\<open>__aenter__\<close> created is not closed: one session opened, none closed. When
  the failure is inside the scope, the session is closed.
\<close>

theorem session_not_released_on_failed_entry:
  "list_feeds example_config (fresh_world [Responds (text_response 401 ''Unauthorized'')]) =
     (''Error listing feeds: Authentication failed: 401 - Unauthorized'',
      \<lparr> pending = [], sent = [auth_request example_config], opened = 1, closed = 0,
        auth_token = None, cache = [] \<rparr>)
   \<and> list_feeds example_config (fresh_world [Responds (text_response 200 ''Error=BadAuthentication'')]) =
     (''Error listing feeds: No auth token received'',
      \<lparr> pending = [], sent = [auth_request example_config], opened = 1, closed = 0,
        auth_token = None, cache = [] \<rparr>)
   \<and> list_feeds example_config
        (fresh_world [auth_ok, Responds (text_response 500 ''Internal Server Error'')]) =
     (''Error listing feeds: API request failed: 500 - Internal Server Error'',
      \<lparr> pending = [],
        sent = [auth_request example_config,
          \<lparr> req_method = ''GET'', req_url = ''https://www.inoreader.com/reader/api/0/subscription/list'',
            req_params = None, req_data = None,
            req_headers = [(''Authorization'', ''GoogleLogin auth=G2UlCa''), (''AppId'', ''1000''),
                           (''AppKey'', ''key'')] \<rparr>],
        opened = 1, closed = 1, auth_token = Some ''G2UlCa'', cache = [] \<rparr>)"
  by code_simp

subsection \<open>get_stats\<close>

lemma stats_loop_eq:
  "stats_loop its (n, acc) =
     (n + sum_list (map (\<lambda>it. get_or (ur_count it) 0)
                 (filter (\<lambda>it. get_or (ur_count it) 0 > 0 \<and>
                               startswith (get_or (ur_id it) '''') ''feed/'') its)),
      acc @ map (\<lambda>it. (get_or (ur_id it) '''', get_or (ur_count it) 0))
                 (filter (\<lambda>it. get_or (ur_count it) 0 > 0 \<and>
                               startswith (get_or (ur_id it) '''') ''feed/'') its))"
  by (induction its arbitrary: n acc) (simp_all add: Let_def)

text \<open>
  C8. The name displayed for the id \<^verbatim>\<open>feed/http://example.com/feed/rss\<close> is
  \<^verbatim>\<open>example.com/rss\<close>: \<^verbatim>\<open>replace\<close> removes every occurrence of \<^verbatim>\<open>feed/\<close>, not only the
  leading one.
\<close>

theorem get_stats_strips_every_feed_prefix:
  "fst (get_stats example_config
         (fresh_world [auth_ok, Responds (json_response
            \<lparr> subscriptions = None, items = None,
              unreadcounts = Some [\<lparr>ur_id = Some ''feed/http://example.com/feed/rss'', ur_count = Some 3\<rparr>] \<rparr>)])) =
     ''**Inoreader Statistics:**'' @ [CHR 0x0A, CHR 0x0A] @
     ''Total unread articles: 3'' @ [CHR 0x0A, CHR 0x0A] @
     ''Top feeds with unread articles:'' @ [CHR 0x0A] @
     ''- example.com/rss: 3 unread'' @ [CHR 0x0A]"
  by code_simp

end
